theory Spec2Isabelle
  imports Main "HOL-Library.Sublist"
begin

section \<open>The article page: src/app/articles/[...slug]/page.tsx\<close>

subsection \<open>Data\<close>

text \<open>
  An element of \<^verbatim>\<open>allArticles\<close>. The generated type is not among the sources, so the
  record has exactly the fields the page reads: \<^verbatim>\<open>slugAsParams\<close>, \<^verbatim>\<open>slug\<close>, \<^verbatim>\<open>title\<close>,
  \<^verbatim>\<open>description\<close> (optional), \<^verbatim>\<open>date\<close> (an opaque date string), \<^verbatim>\<open>timeToRead\<close> (a number)
  and \<^verbatim>\<open>body.code\<close>. The numbers of the language are the type parameter \<open>'n\<close>: the page
  stores one and prints it and does nothing else with it.
\<close>

record body =
  code :: string

record 'n article =
  slugAsParams :: string
  slug :: string
  title :: string
  description :: "string option"
  date :: string
  timeToRead :: 'n
  body :: body

text \<open>\<^verbatim>\<open>params: { slug: string[] }\<close>; the field is renamed, \<^verbatim>\<open>slug\<close> being a field of the article.\<close>

record params =
  slug_segments :: "string list"

text \<open>The object \<^verbatim>\<open>generateMetadata\<close> returns; the nested fields carry a prefix.\<close>

record openGraph =
  og_title :: string
  og_description :: "string option"
  og_type :: string
  publishedTime :: string
  url :: string

record twitter =
  card :: string
  tw_title :: string
  tw_description :: "string option"

record metadata =
  md_title :: string
  md_description :: "string option"
  md_openGraph :: openGraph
  md_twitter :: twitter

text \<open>
  What a JSX expression evaluates to: an element (a host tag or a component, with its props
  and children), a string, a number, or \<^verbatim>\<open>undefined\<close>.
\<close>

datatype prop_value = PString string | PBool bool

datatype 'n jsx =
    Element string "(string \<times> prop_value) list" "'n jsx list"
  | Text string
  | Number 'n
  | Undefined

text \<open>\<^verbatim>\<open>notFound()\<close> never returns: it throws the framework's not-found error.\<close>

datatype error = NEXT_NOT_FOUND

subsection \<open>Library functions of the language\<close>

text \<open>\<^verbatim>\<open>Array.prototype.join\<close> on an array of strings.\<close>

fun join :: "string \<Rightarrow> string list \<Rightarrow> string" where
  "join sep [] = []"
| "join sep [x] = x"
| "join sep (x # y # ys) = x @ sep @ join sep (y # ys)"

subsection \<open>The page\<close>

text \<open>
  Lines 24-26: the lookup written inline in \<^verbatim>\<open>generateMetadata\<close>. \<^verbatim>\<open>Array.prototype.find\<close>
  is \<^const>\<open>List.find\<close>: the first element that satisfies the predicate, or nothing.
\<close>

definition generateMetadata_article :: "'n article list \<Rightarrow> params \<Rightarrow> 'n article option" where
  "generateMetadata_article allArticles params =
     List.find (\<lambda>article. slugAsParams article = join ''/'' (slug_segments params)) allArticles"

definition generateMetadata :: "'n article list \<Rightarrow> params \<Rightarrow> metadata option" where
  "generateMetadata allArticles params =
     (case generateMetadata_article allArticles params of
        None \<Rightarrow> None
      | Some article \<Rightarrow>
          Some \<lparr> md_title = title article,
                 md_description = description article,
                 md_openGraph =
                   \<lparr> og_title = title article,
                     og_description = description article,
                     og_type = ''article'',
                     publishedTime = date article,
                     url = ''https://benjoquilario.vercel.app/articles/'' @ slug article \<rparr>,
                 md_twitter =
                   \<lparr> card = ''summary_large_image'',
                     tw_title = title article,
                     tw_description = description article \<rparr> \<rparr>)"

definition getArticleFromParams :: "'n article list \<Rightarrow> params \<Rightarrow> 'n article option" where
  "getArticleFromParams allArticles params =
     (let slug = join ''/'' (slug_segments params);
          article = List.find (\<lambda>article. slugAsParams article = slug) allArticles
      in case article of None \<Rightarrow> None | Some a \<Rightarrow> Some a)"

text \<open>
  Line 75: \<^verbatim>\<open>article.description && <p>{article.description}</p>\<close>. An absent description
  and the empty string are falsy, and \<^verbatim>\<open>&&\<close> then yields its left operand.
\<close>

definition description_paragraph :: "'n article \<Rightarrow> 'n jsx" where
  "description_paragraph article =
     (case description article of
        None \<Rightarrow> Undefined
      | Some d \<Rightarrow> if d = [] then Text d else Element ''p'' [] [Text d])"

text \<open>Lines 84-91: the reading time.\<close>

definition timeToRead_span :: "'n article \<Rightarrow> 'n jsx" where
  "timeToRead_span article =
     Element ''span'' [(''className'', PString ''text-sm text-muted-foreground/90'')]
       [Number (timeToRead article), Text '' min read'']"

text \<open>
  Lines 78-83: the date. \<^verbatim>\<open>relativeDate\<close> (of \<^verbatim>\<open>@/lib/date\<close>) is not among the sources and
  reads the clock; it is a parameter, with the current time as its first argument.
\<close>

definition date_span :: "('t \<Rightarrow> string \<Rightarrow> string) \<Rightarrow> 't \<Rightarrow> 'n article \<Rightarrow> 'n jsx" where
  "date_span relativeDate now article =
     Element ''span'' [(''className'', PString ''text-sm text-muted-foreground/90'')]
       [Text (relativeDate now (date article))]"

text \<open>Lines 65-93: the element returned for a found article.\<close>

definition article_element ::
  "('t \<Rightarrow> string \<Rightarrow> string) \<Rightarrow> 't \<Rightarrow> 'n article \<Rightarrow> 'n jsx" where
  "article_element relativeDate now article =
     Element ''article'' [(''className'', PString ''prose py-6 dark:prose-invert'')]
       [ Element ''Link''
           [(''href'', PString ''/''),
            (''className'', PString
               ''flex items-center space-x-2 py-2 transition hover:underline hover:underline-offset-2'')]
           [Element ''ChevronLeft'' [(''className'', PString ''mr-2 h-4 w-4'')] [], Text ''Back''],
         Element ''h1'' [] [Text (title article)],
         description_paragraph article,
         Element ''hr'' [(''className'', PString ''my-4'')] [],
         Element ''div''
           [(''className'', PString ''flex flex-wrap items-stretch justify-start gap-3'')]
           [ Element ''div'' [(''className'', PString ''flex shrink-0 items-center gap-2'')]
               [ Element ''Calendar''
                   [(''className'', PString ''h-4 w-4''), (''aria-hidden'', PBool True)] [],
                 date_span relativeDate now article ],
             Element ''div'' [(''className'', PString ''flex shrink-0 items-center gap-2'')]
               [ Element ''Clock''
                   [(''className'', PString ''h-4 w-4''), (''aria-hidden'', PBool True)] [],
                 timeToRead_span article ] ],
         Element ''hr'' [(''className'', PString ''my-4'')] [],
         Element ''Mdx'' [(''code'', PString (code (body article)))] [] ]"

definition ArticlePage ::
  "('t \<Rightarrow> string \<Rightarrow> string) \<Rightarrow> 't \<Rightarrow> 'n article list \<Rightarrow> params \<Rightarrow> error + 'n jsx" where
  "ArticlePage relativeDate now allArticles params =
     (case getArticleFromParams allArticles params of
        None \<Rightarrow> Inl NEXT_NOT_FOUND
      | Some article \<Rightarrow> Inr (article_element relativeDate now article))"

subsection \<open>Reading an element\<close>

text \<open>An element with everything below it, in document order.\<close>

fun descendants :: "'n jsx \<Rightarrow> 'n jsx list" where
  "descendants (Element tag props children) =
     Element tag props children # concat (map descendants children)"
| "descendants (Text s) = [Text s]"
| "descendants (Number n) = [Number n]"
| "descendants Undefined = [Undefined]"

text \<open>
  The text of an element: strings as they are, a number as the language prints it, nothing
  for \<^verbatim>\<open>undefined\<close>, children one after the other. The language's conversion of a number to
  a string is not code of the page: it is the parameter \<open>numberToString\<close>.
\<close>

fun textContent :: "('n \<Rightarrow> string) \<Rightarrow> 'n jsx \<Rightarrow> string" where
  "textContent numberToString (Element tag props children) =
     concat (map (textContent numberToString) children)"
| "textContent numberToString (Text s) = s"
| "textContent numberToString (Number n) = numberToString n"
| "textContent numberToString Undefined = []"

fun is_paragraph :: "'n jsx \<Rightarrow> bool" where
  "is_paragraph (Element tag props children) = (tag = ''p'')"
| "is_paragraph _ = False"

subsection \<open>Sample collections\<close>

definition auth_article :: "int article" where
  "auth_article =
     \<lparr> slugAsParams = ''authentication-nextjs'',
       slug = ''authentication-nextjs'',
       title = ''Implement authentication system using Next.js with app dir'',
       description = Some ''A guide that explains how to build a authentication system'',
       date = ''2023-09-19'',
       timeToRead = 5,
       body = \<lparr> code = ''var Component = 1'' \<rparr> \<rparr>"

definition auth_params :: params where
  "auth_params = \<lparr> slug_segments = [''authentication-nextjs''] \<rparr>"

text \<open>The same article under a \<^verbatim>\<open>slug\<close> that differs from its \<^verbatim>\<open>slugAsParams\<close>.\<close>

definition moved_article :: "int article" where
  "moved_article = auth_article \<lparr> slug := ''auth'' \<rparr>"

text \<open>Two records with one \<^verbatim>\<open>slugAsParams\<close>, told apart by their titles.\<close>

definition first_copy :: "int article" where
  "first_copy = auth_article \<lparr> title := ''First'' \<rparr>"

definition second_copy :: "int article" where
  "second_copy = auth_article \<lparr> title := ''Second'' \<rparr>"

definition missing_params :: params where
  "missing_params = \<lparr> slug_segments = [''no'', ''such'', ''article''] \<rparr>"

text \<open>A stand-in for \<^verbatim>\<open>relativeDate\<close>, with a string for the clock.\<close>

definition sample_relativeDate :: "string \<Rightarrow> string \<Rightarrow> string" where
  "sample_relativeDate now d = d @ '' seen from '' @ now"

text \<open>
  A stand-in for the language's conversion of a number to a string, on whole numbers: the
  decimal digits, which is what the language prints for a whole number of absolute value
  below \<open>2\<^sup>5\<^sup>3\<close>. The samples use it at 5.
\<close>

function show_nat :: "nat \<Rightarrow> string" where
  "show_nat n =
     (if n < 10 then [''0123456789'' ! n]
      else show_nat (n div 10) @ [''0123456789'' ! (n mod 10)])"
  by pat_completeness auto
termination
  by (relation "measure (\<lambda>n. n)") auto

definition sample_numberToString :: "int \<Rightarrow> string" where
  "sample_numberToString i =
     (if i < 0 then CHR ''-'' # show_nat (nat (- i)) else show_nat (nat i))"

text \<open>Two records with different \<^verbatim>\<open>slugAsParams\<close>, the second one of several segments.\<close>

definition nested_article :: "int article" where
  "nested_article =
     auth_article \<lparr> slugAsParams := ''guides/next/auth'', slug := ''guides/next/auth'',
                    title := ''Nested'' \<rparr>"

definition nested_params :: params where
  "nested_params = \<lparr> slug_segments = [''guides'', ''next'', ''auth''] \<rparr>"

text \<open>A change of every field but \<^verbatim>\<open>slugAsParams\<close> and \<^verbatim>\<open>slug\<close>.\<close>

definition blank_fields :: "int article \<Rightarrow> int article" where
  "blank_fields a =
     a \<lparr> title := [], description := None, date := [], timeToRead := 0,
         body := \<lparr> code = [] \<rparr> \<rparr>"

text \<open>The article with the empty string for a description.\<close>

definition silent_article :: "int article" where
  "silent_article = auth_article \<lparr> description := Some [] \<rparr>"

section \<open>Properties\<close>

subsection \<open>Auxiliary facts\<close>

lemma getArticleFromParams_find:
  "getArticleFromParams allArticles params =
     List.find (\<lambda>a. slugAsParams a = join ''/'' (slug_segments params)) allArticles"
  by (simp add: getArticleFromParams_def Let_def split: option.split)

lemma auth_found: "getArticleFromParams [auth_article] auth_params = Some auth_article"
  by (simp add: getArticleFromParams_find auth_article_def auth_params_def)

lemma auth_missing: "getArticleFromParams [auth_article] missing_params = None"
  by (simp add: getArticleFromParams_find auth_article_def missing_params_def)

lemma moved_found: "getArticleFromParams [moved_article] auth_params = Some moved_article"
  by (simp add: getArticleFromParams_find moved_article_def auth_article_def auth_params_def)

lemma silent_found: "getArticleFromParams [silent_article] auth_params = Some silent_article"
  by (simp add: getArticleFromParams_find silent_article_def auth_article_def auth_params_def)

lemma timeToRead_span_in_article:
  "timeToRead_span a \<in> set (descendants (article_element relativeDate now a))"
  by (simp add: article_element_def timeToRead_span_def date_span_def)

lemma date_span_in_article:
  "date_span relativeDate now a \<in> set (descendants (article_element relativeDate now a))"
  by (simp add: article_element_def timeToRead_span_def date_span_def)

lemma sample_numberToString_5: "sample_numberToString 5 = ''5''"
  by (simp add: sample_numberToString_def)

lemma paragraph_in_article:
  "(\<exists>n\<in>set (descendants (article_element relativeDate now a)). is_paragraph n) \<longleftrightarrow>
   (\<exists>d. description a = Some d \<and> d \<noteq> [])"
  by (simp add: article_element_def description_paragraph_def date_span_def timeToRead_span_def
      split: option.split)

lemma paragraph_of_description:
  "description a = Some d \<Longrightarrow> d \<noteq> [] \<Longrightarrow>
   Element ''p'' [] [Text d] \<in> set (descendants (article_element relativeDate now a))"
  by (simp add: article_element_def description_paragraph_def)

lemma empty_description_text:
  "description a = Some [] \<Longrightarrow>
   textContent numberToString (article_element relativeDate now a) =
   textContent numberToString (article_element relativeDate now (a \<lparr> description := None \<rparr>))"
  by (simp add: article_element_def description_paragraph_def date_span_def timeToRead_span_def)

subsection \<open>The lookup\<close>

text \<open>
  C1. In a collection whose \<^verbatim>\<open>slugAsParams\<close> are unique (the invariant of the data model),
  every record whose \<^verbatim>\<open>slugAsParams\<close> equals the segments joined with \<^verbatim>\<open>/\<close> is the record
  that \<^verbatim>\<open>getArticleFromParams\<close> returns. In every collection, when some record has the joined
  \<^verbatim>\<open>slugAsParams\<close> a record of the collection that has it is returned, and when no record has
  it null is returned.
\<close>

theorem getArticleFromParams_found_or_null:
  "(distinct (map slugAsParams allArticles) \<longrightarrow>
      (\<forall>a\<in>set allArticles.
         slugAsParams a = join ''/'' (slug_segments params) \<longrightarrow>
         getArticleFromParams allArticles params = Some a)) \<and>
   ((\<exists>a\<in>set allArticles. slugAsParams a = join ''/'' (slug_segments params)) \<longrightarrow>
      (\<exists>a\<in>set allArticles.
         slugAsParams a = join ''/'' (slug_segments params) \<and>
         getArticleFromParams allArticles params = Some a)) \<and>
   ((\<forall>a\<in>set allArticles. slugAsParams a \<noteq> join ''/'' (slug_segments params)) \<longrightarrow>
      getArticleFromParams allArticles params = None)"
proof -
  let ?P = "\<lambda>a. slugAsParams a = join ''/'' (slug_segments params)"
  have some: "\<exists>b\<in>set allArticles. ?P b \<and> List.find ?P allArticles = Some b"
    if "\<exists>a\<in>set allArticles. ?P a"
  proof -
    from that have "List.find ?P allArticles \<noteq> None"
      by (auto simp: find_None_iff)
    then obtain b where b: "List.find ?P allArticles = Some b"
      by auto
    then have "b \<in> set allArticles" and "?P b"
      by (auto simp: find_Some_iff)
    with b show ?thesis by blast
  qed
  have unique: "List.find ?P allArticles = Some a"
    if d: "distinct (map slugAsParams allArticles)" and a: "a \<in> set allArticles" "?P a" for a
  proof -
    from a some obtain b where b: "b \<in> set allArticles" "?P b" "List.find ?P allArticles = Some b"
      by blast
    from d have "inj_on slugAsParams (set allArticles)"
      by (simp add: distinct_map)
    with a b have "a = b"
      by (simp add: inj_on_def)
    with b show ?thesis by simp
  qed
  have none: "List.find ?P allArticles = None" if "\<forall>a\<in>set allArticles. \<not> ?P a"
    using that by (auto simp: find_None_iff)
  from some unique none show ?thesis
    unfolding getArticleFromParams_find by blast
qed

theorem getArticleFromParams_found_or_null_witness:
  "distinct (map slugAsParams [auth_article, nested_article]) \<and>
   nested_article \<in> set [auth_article, nested_article] \<and>
   slugAsParams nested_article = join ''/'' (slug_segments nested_params) \<and>
   getArticleFromParams [auth_article, nested_article] nested_params = Some nested_article \<and>
   slugAsParams auth_article \<noteq> join ''/'' (slug_segments missing_params) \<and>
   slugAsParams nested_article \<noteq> join ''/'' (slug_segments missing_params) \<and>
   getArticleFromParams [auth_article, nested_article] missing_params = None"
proof -
  let ?coll = "[auth_article, nested_article]"
  have d: "distinct (map slugAsParams ?coll)"
    by (simp add: auth_article_def nested_article_def)
  have m: "nested_article \<in> set ?coll" by simp
  have j: "slugAsParams nested_article = join ''/'' (slug_segments nested_params)"
    by (simp add: nested_article_def nested_params_def)
  from getArticleFromParams_found_or_null [of ?coll nested_params]
  have "distinct (map slugAsParams ?coll) \<longrightarrow>
      (\<forall>a\<in>set ?coll.
         slugAsParams a = join ''/'' (slug_segments nested_params) \<longrightarrow>
         getArticleFromParams ?coll nested_params = Some a)"
    by (rule conjunct1)
  with d m j have found: "getArticleFromParams ?coll nested_params = Some nested_article"
    by blast
  have no1: "slugAsParams auth_article \<noteq> join ''/'' (slug_segments missing_params)"
    and no2: "slugAsParams nested_article \<noteq> join ''/'' (slug_segments missing_params)"
    by (simp_all add: auth_article_def nested_article_def missing_params_def)
  then have no: "\<forall>a\<in>set ?coll. slugAsParams a \<noteq> join ''/'' (slug_segments missing_params)"
    by simp
  from getArticleFromParams_found_or_null [of ?coll missing_params]
  have "(\<forall>a\<in>set ?coll. slugAsParams a \<noteq> join ''/'' (slug_segments missing_params)) \<longrightarrow>
      getArticleFromParams ?coll missing_params = None"
    by (rule conjunct2 [THEN conjunct2])
  with no have "getArticleFromParams ?coll missing_params = None"
    by (rule rev_mp)
  with d m j found no1 no2 show ?thesis by simp
qed

text \<open>
  C2. \<^verbatim>\<open>generateMetadata\<close> returns \<^verbatim>\<open>undefined\<close> exactly when \<^verbatim>\<open>getArticleFromParams\<close>,
  on the same collection and the same segments, returns null.
\<close>

theorem generateMetadata_undefined_iff:
  "generateMetadata allArticles params = None \<longleftrightarrow>
   getArticleFromParams allArticles params = None"
  unfolding getArticleFromParams_find generateMetadata_def generateMetadata_article_def
  by (simp split: option.split)

theorem generateMetadata_undefined_iff_witness:
  "generateMetadata [auth_article] missing_params = None \<and>
   getArticleFromParams [auth_article] missing_params = None \<and>
   generateMetadata [auth_article] auth_params \<noteq> None \<and>
   getArticleFromParams [auth_article] auth_params \<noteq> None"
  using generateMetadata_undefined_iff [of "[auth_article]" missing_params]
    generateMetadata_undefined_iff [of "[auth_article]" auth_params]
  by (simp add: auth_found auth_missing)

text \<open>
  C3. When two or more records of the collection have the joined \<^verbatim>\<open>slugAsParams\<close>,
  \<^verbatim>\<open>getArticleFromParams\<close> returns the first of them in collection order: the record at the
  least position whose \<^verbatim>\<open>slugAsParams\<close> is the joined string.
\<close>

theorem getArticleFromParams_duplicates:
  assumes "2 \<le> length (filter (\<lambda>a. slugAsParams a = join ''/'' (slug_segments params))
                       allArticles)"
  shows "\<exists>i<length allArticles.
           slugAsParams (allArticles ! i) = join ''/'' (slug_segments params) \<and>
           (\<forall>j<i. slugAsParams (allArticles ! j) \<noteq> join ''/'' (slug_segments params)) \<and>
           getArticleFromParams allArticles params = Some (allArticles ! i)"
proof -
  let ?P = "\<lambda>a. slugAsParams a = join ''/'' (slug_segments params)"
  from assms have "filter ?P allArticles \<noteq> []" by auto
  then obtain x where "x \<in> set allArticles" "?P x"
    by (auto simp: filter_empty_conv)
  then have "List.find ?P allArticles \<noteq> None"
    by (auto simp: find_None_iff)
  then obtain a where "List.find ?P allArticles = Some a" by auto
  then show ?thesis
    unfolding getArticleFromParams_find by (auto simp: find_Some_iff)
qed

theorem getArticleFromParams_duplicates_witness:
  "2 \<le> length (filter (\<lambda>a. slugAsParams a = join ''/'' (slug_segments auth_params))
          [first_copy, second_copy]) \<and>
   (\<exists>i<length [first_copy, second_copy].
      getArticleFromParams [first_copy, second_copy] auth_params =
        Some ([first_copy, second_copy] ! i))"
proof -
  have h: "2 \<le> length (filter (\<lambda>a. slugAsParams a = join ''/'' (slug_segments auth_params))
          [first_copy, second_copy])"
    by (simp add: first_copy_def second_copy_def auth_article_def auth_params_def)
  from getArticleFromParams_duplicates [OF h] h show ?thesis by blast
qed

text \<open>
  C9. The lookup written inline in \<^verbatim>\<open>generateMetadata\<close> finds what
  \<^verbatim>\<open>getArticleFromParams\<close> finds, for every collection and all segments (absence being one
  value here, where the source has \<^verbatim>\<open>undefined\<close> in the one and null in the other); so the
  page is the not-found one exactly when the metadata lookup finds nothing, and it renders the
  record the metadata lookup found.
\<close>

theorem generateMetadata_same_lookup:
  "generateMetadata_article allArticles params = getArticleFromParams allArticles params \<and>
   ArticlePage relativeDate now allArticles params =
     (case generateMetadata_article allArticles params of
        None \<Rightarrow> Inl NEXT_NOT_FOUND
      | Some a \<Rightarrow> Inr (article_element relativeDate now a))"
  by (simp add: generateMetadata_article_def getArticleFromParams_find ArticlePage_def)

theorem generateMetadata_same_lookup_witness:
  "generateMetadata_article [first_copy, second_copy] auth_params = Some first_copy \<and>
   getArticleFromParams [first_copy, second_copy] auth_params = Some first_copy \<and>
   generateMetadata_article [first_copy, second_copy] missing_params = None \<and>
   getArticleFromParams [first_copy, second_copy] missing_params = None"
proof -
  let ?coll = "[first_copy, second_copy]"
  from generateMetadata_same_lookup [of ?coll auth_params sample_relativeDate "''2026-11-03''"]
  have "generateMetadata_article ?coll auth_params = getArticleFromParams ?coll auth_params"
    by (rule conjunct1)
  moreover
  from generateMetadata_same_lookup [of ?coll missing_params sample_relativeDate "''2026-11-03''"]
  have "generateMetadata_article ?coll missing_params = getArticleFromParams ?coll missing_params"
    by (rule conjunct1)
  moreover have "getArticleFromParams ?coll auth_params = Some first_copy"
    and "getArticleFromParams ?coll missing_params = None"
    by (simp_all add: getArticleFromParams_find first_copy_def second_copy_def auth_article_def
        auth_params_def missing_params_def)
  ultimately show ?thesis by simp
qed

subsection \<open>The metadata\<close>

text \<open>
  C4, as the code has it. For a record that \<^verbatim>\<open>getArticleFromParams\<close> finds, the Open Graph
  URL of the metadata is the origin \<^verbatim>\<open>https://benjoquilario.vercel.app\<close>, then \<^verbatim>\<open>/articles/\<close>,
  then the record's \<^verbatim>\<open>slug\<close> field, which is a field of its own and not \<^verbatim>\<open>slugAsParams\<close>; for
  a record whose \<^verbatim>\<open>slug\<close> is \<^verbatim>\<open>authentication-nextjs\<close> the URL ends in
  \<^verbatim>\<open>/articles/authentication-nextjs\<close>.
\<close>

theorem generateMetadata_url:
  assumes "getArticleFromParams allArticles params = Some a"
  shows "\<exists>m. generateMetadata allArticles params = Some m \<and>
           url (md_openGraph m) =
             ''https://benjoquilario.vercel.app'' @ ''/articles/'' @ slug a \<and>
           (slug a = ''authentication-nextjs'' \<longrightarrow>
              suffix ''/articles/authentication-nextjs'' (url (md_openGraph m)))"
  using assms
  by (auto simp: generateMetadata_def generateMetadata_article_def getArticleFromParams_find
      suffix_def)

theorem generateMetadata_url_witness:
  "getArticleFromParams [auth_article] auth_params = Some auth_article \<and>
   slug auth_article = ''authentication-nextjs'' \<and>
   (\<exists>m. generateMetadata [auth_article] auth_params = Some m \<and>
      url (md_openGraph m) = ''https://benjoquilario.vercel.app/articles/authentication-nextjs'' \<and>
      suffix ''/articles/authentication-nextjs'' (url (md_openGraph m)))"
proof -
  have s: "slug auth_article = ''authentication-nextjs''"
    by (simp add: auth_article_def)
  from generateMetadata_url [OF auth_found] s auth_found show ?thesis
    by auto
qed

text \<open>
  C4 as it is written takes the URL to end in the \<^verbatim>\<open>slugAsParams\<close> that the segments
  matched. A record matched by \<^verbatim>\<open>["authentication-nextjs"]\<close> whose \<^verbatim>\<open>slug\<close> is \<^verbatim>\<open>auth\<close> gets
  the URL \<^verbatim>\<open>https://benjoquilario.vercel.app/articles/auth\<close>.
\<close>

theorem generateMetadata_url_other_slug:
  "slug_segments auth_params = [''authentication-nextjs''] \<and>
   slugAsParams moved_article = ''authentication-nextjs'' \<and>
   getArticleFromParams [moved_article] auth_params = Some moved_article \<and>
   map_option (\<lambda>m. url (md_openGraph m)) (generateMetadata [moved_article] auth_params) =
     Some ''https://benjoquilario.vercel.app/articles/auth'' \<and>
   \<not> suffix ''/articles/authentication-nextjs''
       ''https://benjoquilario.vercel.app/articles/auth''"
  by (simp add: getArticleFromParams_find generateMetadata_def generateMetadata_article_def
      suffix_to_prefix moved_article_def auth_article_def auth_params_def)

text \<open>
  C7. For a record that \<^verbatim>\<open>getArticleFromParams\<close> finds, the metadata has Open Graph type
  \<^verbatim>\<open>article\<close>, Open Graph \<^verbatim>\<open>publishedTime\<close> the record's date, Twitter card
  \<^verbatim>\<open>summary_large_image\<close>, and the record's title and description at the top level, under
  Open Graph and under Twitter.
\<close>

theorem generateMetadata_fields:
  assumes "getArticleFromParams allArticles params = Some a"
  shows "\<exists>m. generateMetadata allArticles params = Some m \<and>
           og_type (md_openGraph m) = ''article'' \<and>
           publishedTime (md_openGraph m) = date a \<and>
           card (md_twitter m) = ''summary_large_image'' \<and>
           md_title m = title a \<and>
           og_title (md_openGraph m) = title a \<and>
           tw_title (md_twitter m) = title a \<and>
           md_description m = description a \<and>
           og_description (md_openGraph m) = description a \<and>
           tw_description (md_twitter m) = description a"
  using assms
  by (simp add: generateMetadata_def generateMetadata_article_def getArticleFromParams_find)

theorem generateMetadata_fields_witness:
  "getArticleFromParams [auth_article] auth_params = Some auth_article \<and>
   (\<exists>m. generateMetadata [auth_article] auth_params = Some m \<and>
      og_type (md_openGraph m) = ''article'' \<and>
      publishedTime (md_openGraph m) = ''2023-09-19'' \<and>
      card (md_twitter m) = ''summary_large_image'' \<and>
      md_title m = ''Implement authentication system using Next.js with app dir'' \<and>
      og_title (md_openGraph m) = md_title m \<and>
      tw_title (md_twitter m) = md_title m \<and>
      md_description m = Some ''A guide that explains how to build a authentication system'' \<and>
      og_description (md_openGraph m) = md_description m \<and>
      tw_description (md_twitter m) = md_description m)"
proof -
  from generateMetadata_fields [OF auth_found] obtain m where
    m: "generateMetadata [auth_article] auth_params = Some m"
      "og_type (md_openGraph m) = ''article''"
      "publishedTime (md_openGraph m) = date auth_article"
      "card (md_twitter m) = ''summary_large_image''"
      "md_title m = title auth_article"
      "og_title (md_openGraph m) = title auth_article"
      "tw_title (md_twitter m) = title auth_article"
      "md_description m = description auth_article"
      "og_description (md_openGraph m) = description auth_article"
      "tw_description (md_twitter m) = description auth_article"
    by (elim exE conjE)
  have "date auth_article = ''2023-09-19''"
    "title auth_article = ''Implement authentication system using Next.js with app dir''"
    "description auth_article = Some ''A guide that explains how to build a authentication system''"
    by (simp_all add: auth_article_def)
  with m auth_found show ?thesis by simp
qed

subsection \<open>The page\<close>

text \<open>
  C5. When no record of the collection has the joined \<^verbatim>\<open>slugAsParams\<close>, \<^verbatim>\<open>ArticlePage\<close> ends
  in the not-found error and returns no element. It reads no title, description, date,
  reading time or body: the outcome is the same whatever \<^verbatim>\<open>relativeDate\<close> and the clock are,
  and whatever the records hold in their other fields (every change \<open>f\<close> of the records that
  keeps their \<^verbatim>\<open>slugAsParams\<close>).
\<close>

theorem ArticlePage_notFound:
  assumes "\<forall>a\<in>set allArticles. slugAsParams a \<noteq> join ''/'' (slug_segments params)"
  shows "ArticlePage relativeDate now allArticles params = Inl NEXT_NOT_FOUND \<and>
         (\<forall>relativeDate' now' f.
            (\<forall>a. slugAsParams (f a) = slugAsParams a) \<longrightarrow>
            ArticlePage relativeDate' now' (map f allArticles) params = Inl NEXT_NOT_FOUND)"
proof -
  let ?P = "\<lambda>a. slugAsParams a = join ''/'' (slug_segments params)"
  from assms have "List.find ?P allArticles = None"
    by (simp add: find_None_iff)
  moreover have "\<forall>f. (\<forall>a. slugAsParams (f a) = slugAsParams a) \<longrightarrow>
      List.find ?P (map f allArticles) = None"
    using assms by (simp add: find_None_iff)
  ultimately show ?thesis
    by (auto simp: ArticlePage_def getArticleFromParams_find)
qed

theorem ArticlePage_notFound_witness:
  "slugAsParams auth_article \<noteq> join ''/'' (slug_segments missing_params) \<and>
   ArticlePage sample_relativeDate ''2026-11-03'' [auth_article] missing_params =
     Inl NEXT_NOT_FOUND \<and>
   slugAsParams (blank_fields auth_article) = slugAsParams auth_article \<and>
   ArticlePage sample_relativeDate ''2026-11-03'' (map blank_fields [auth_article])
     missing_params = Inl NEXT_NOT_FOUND"
proof -
  have no: "slugAsParams auth_article \<noteq> join ''/'' (slug_segments missing_params)"
    by (simp add: auth_article_def missing_params_def)
  then have h: "\<forall>a\<in>set [auth_article].
      slugAsParams a \<noteq> join ''/'' (slug_segments missing_params)"
    by simp
  have keep: "\<forall>a. slugAsParams (blank_fields a) = slugAsParams a"
    by (simp add: blank_fields_def)
  note nf = ArticlePage_notFound [OF h, of sample_relativeDate "''2026-11-03''"]
  from nf have here:
    "ArticlePage sample_relativeDate ''2026-11-03'' [auth_article] missing_params =
       Inl NEXT_NOT_FOUND"
    by (rule conjunct1)
  from nf have "\<forall>relativeDate' now' f.
      (\<forall>a. slugAsParams (f a) = slugAsParams a) \<longrightarrow>
      ArticlePage (relativeDate' :: string \<Rightarrow> string \<Rightarrow> string) now' (map f [auth_article])
        missing_params = Inl NEXT_NOT_FOUND"
    by (rule conjunct2)
  with keep have
    "ArticlePage sample_relativeDate ''2026-11-03'' (map blank_fields [auth_article])
       missing_params = Inl NEXT_NOT_FOUND"
    by blast
  with here keep no show ?thesis by simp
qed

text \<open>
  C8. For a record that \<^verbatim>\<open>getArticleFromParams\<close> finds, the element \<^verbatim>\<open>ArticlePage\<close> returns
  contains the reading-time span, whose text is the record's \<^verbatim>\<open>timeToRead\<close>, as the
  language prints that number, followed by \<^verbatim>\<open> min read\<close>; so it is \<^verbatim>\<open>5 min read\<close> when
  \<^verbatim>\<open>timeToRead\<close> is 5, which the language prints as \<^verbatim>\<open>5\<close>. It also contains the date span,
  whose text is what \<^verbatim>\<open>relativeDate\<close> makes of the record's date at the current time.
\<close>

theorem ArticlePage_reading_time_and_date:
  assumes "getArticleFromParams allArticles params = Some a"
  shows "\<exists>out. ArticlePage relativeDate now allArticles params = Inr out \<and>
           timeToRead_span a \<in> set (descendants out) \<and>
           textContent numberToString (timeToRead_span a) =
             numberToString (timeToRead a) @ '' min read'' \<and>
           (timeToRead a = 5 \<and> numberToString 5 = ''5'' \<longrightarrow>
              textContent numberToString (timeToRead_span a) = ''5 min read'') \<and>
           date_span relativeDate now a \<in> set (descendants out) \<and>
           textContent numberToString (date_span relativeDate now a) =
             relativeDate now (date a)"
  using assms
  by (simp add: ArticlePage_def timeToRead_span_in_article date_span_in_article)
     (simp add: timeToRead_span_def date_span_def)

theorem ArticlePage_reading_time_and_date_witness:
  "getArticleFromParams [auth_article] auth_params = Some auth_article \<and>
   timeToRead auth_article = 5 \<and>
   sample_numberToString 5 = ''5'' \<and>
   date auth_article = ''2023-09-19'' \<and>
   (\<exists>out. ArticlePage sample_relativeDate ''2026-11-03'' [auth_article] auth_params = Inr out \<and>
      timeToRead_span auth_article \<in> set (descendants out) \<and>
      textContent sample_numberToString (timeToRead_span auth_article) = ''5 min read'' \<and>
      date_span sample_relativeDate ''2026-11-03'' auth_article \<in> set (descendants out) \<and>
      textContent sample_numberToString (date_span sample_relativeDate ''2026-11-03'' auth_article) =
        ''2023-09-19 seen from 2026-11-03'')"
proof -
  have t: "timeToRead auth_article = 5" and d: "date auth_article = ''2023-09-19''"
    by (simp_all add: auth_article_def)
  note p = sample_numberToString_5
  from ArticlePage_reading_time_and_date
    [OF auth_found, of sample_relativeDate "''2026-11-03''" sample_numberToString]
  obtain out where
    "ArticlePage sample_relativeDate ''2026-11-03'' [auth_article] auth_params = Inr out"
    "timeToRead_span auth_article \<in> set (descendants out)"
    "timeToRead auth_article = 5 \<and> sample_numberToString 5 = ''5'' \<longrightarrow>
       textContent sample_numberToString (timeToRead_span auth_article) = ''5 min read''"
    "date_span sample_relativeDate ''2026-11-03'' auth_article \<in> set (descendants out)"
    "textContent sample_numberToString (date_span sample_relativeDate ''2026-11-03'' auth_article) =
       sample_relativeDate ''2026-11-03'' (date auth_article)"
    by (elim exE conjE)
  with t d p auth_found show ?thesis
    by (simp add: sample_relativeDate_def)
qed

text \<open>
  C10. For a record that \<^verbatim>\<open>getArticleFromParams\<close> finds, the element \<^verbatim>\<open>ArticlePage\<close> returns
  has a \<^verbatim>\<open>p\<close> element exactly when the record has a description and the description is
  not the empty string, and the paragraph then holds the description. With the empty string
  for a description the page has no paragraph and reads as it does with no description.
\<close>

theorem ArticlePage_description_paragraph:
  assumes "getArticleFromParams allArticles params = Some a"
  shows "\<exists>out. ArticlePage relativeDate now allArticles params = Inr out \<and>
           ((\<exists>n\<in>set (descendants out). is_paragraph n) \<longleftrightarrow>
            (\<exists>d. description a = Some d \<and> d \<noteq> [])) \<and>
           (\<forall>d. description a = Some d \<and> d \<noteq> [] \<longrightarrow>
              Element ''p'' [] [Text d] \<in> set (descendants out)) \<and>
           (description a = Some [] \<longrightarrow>
              (\<forall>numberToString.
                 textContent numberToString out =
                 textContent numberToString
                   (article_element relativeDate now (a \<lparr> description := None \<rparr>))))"
  using assms
  by (simp add: ArticlePage_def paragraph_in_article paragraph_of_description
      empty_description_text)

theorem ArticlePage_description_paragraph_witness:
  "getArticleFromParams [auth_article] auth_params = Some auth_article \<and>
   description auth_article =
     Some ''A guide that explains how to build a authentication system'' \<and>
   getArticleFromParams [silent_article] auth_params = Some silent_article \<and>
   description silent_article = Some [] \<and>
   (\<exists>out. ArticlePage sample_relativeDate ''2026-11-03'' [auth_article] auth_params = Inr out \<and>
      Element ''p'' [] [Text ''A guide that explains how to build a authentication system'']
        \<in> set (descendants out)) \<and>
   (\<exists>out. ArticlePage sample_relativeDate ''2026-11-03'' [silent_article] auth_params = Inr out \<and>
      \<not> (\<exists>n\<in>set (descendants out). is_paragraph n) \<and>
      textContent sample_numberToString out =
        textContent sample_numberToString
          (article_element sample_relativeDate ''2026-11-03''
             (silent_article \<lparr> description := None \<rparr>)))"
proof -
  have d1: "description auth_article =
      Some ''A guide that explains how to build a authentication system''"
    by (simp add: auth_article_def)
  have d2: "description silent_article = Some []"
    by (simp add: silent_article_def)
  from ArticlePage_description_paragraph
    [OF auth_found, of sample_relativeDate "''2026-11-03''"] d1
  have one: "\<exists>out.
      ArticlePage sample_relativeDate ''2026-11-03'' [auth_article] auth_params = Inr out \<and>
      Element ''p'' [] [Text ''A guide that explains how to build a authentication system'']
        \<in> set (descendants out)"
    by auto
  from ArticlePage_description_paragraph
    [OF silent_found, of sample_relativeDate "''2026-11-03''"] d2
  have two: "\<exists>out.
      ArticlePage sample_relativeDate ''2026-11-03'' [silent_article] auth_params = Inr out \<and>
      \<not> (\<exists>n\<in>set (descendants out). is_paragraph n) \<and>
      textContent sample_numberToString out =
        textContent sample_numberToString
          (article_element sample_relativeDate ''2026-11-03''
             (silent_article \<lparr> description := None \<rparr>))"
    by auto
  from auth_found d1 silent_found d2 one two show ?thesis by simp
qed

end
